theory Spec2Isabelle
  imports Main "HOL-Library.Word"
begin

section \<open>Shared vocabulary of package dbr\<close>

text \<open>
  A Go \<open>float64\<close> is carried as its 64 bit pattern; the only operation the code applies
  to it is \<open>strconv.FormatFloat(f, 'f', -1, 64)\<close>, which every function below takes as
  the parameter \<open>FormatFloat\<close>. A Go \<open>string\<close> is a byte sequence, here a \<open>char list\<close>.
\<close>

type_synonym float64 = "64 word"
type_synonym int64 = "64 word"

text \<open>
  Modelled from the spec: the operator constants of package dbr. The fields \<open>opt\<close> are
  bytes in the source and the constants \<open>In\<close>, \<open>NotIn\<close>, ... are declared in a file that
  is not part of the sources at hand; the tests use them by name
  (\<open>In\<close>, \<open>NotIn\<close>, \<open>Between\<close>, \<open>NotBetween\<close>, \<open>Like\<close>, \<open>NotLike\<close>, \<open>Equal\<close>,
  \<open>NotEqual\<close>, \<open>Exists\<close>, \<open>NotExists\<close>, \<open>Less\<close>, \<open>Greater\<close>, \<open>LessOrEqual\<close>,
  \<open>GreaterOrEqual\<close>). \<open>NoOperator\<close> is the zero byte of a freshly built argument.
\<close>

datatype opcode =
    NoOperator
  | Null | NotNull
  | In | NotIn
  | Between | NotBetween
  | Like | NotLike
  | Equal | NotEqual
  | Exists | NotExists
  | Less | Greater | LessOrEqual | GreaterOrEqual

text \<open>The values of \<open>interface{}\<close> that reach the bound-argument list.\<close>

datatype iface =
    INil
  | IInt64 int64
  | IFloat64 float64
  | IString string
  | IBool bool
  | IBytes string

datatype error = NotValid | Empty | NotFound | NotSupported | WriteFailed

text \<open>
  The interface \<open>queryWriter\<close> (its declaration is not among the sources): the two
  methods the code calls, over an explicit writer state. The byte count both return is
  dropped, as every caller drops it.
\<close>

record 'w queryWriter =
  WriteString :: "'w \<Rightarrow> string \<Rightarrow> 'w \<times> error option"
  WriteRune :: "'w \<Rightarrow> char \<Rightarrow> 'w \<times> error option"

text \<open>\<open>bytes.Buffer\<close>, the writer of every test: it appends and never fails.\<close>

definition Buffer :: "string queryWriter" where
  "Buffer = \<lparr>WriteString = (\<lambda>b s. (b @ s, None)), WriteRune = (\<lambda>b r. (b @ [r], None))\<rparr>"

text \<open>A writer whose every write fails and stores nothing, such as a closed sink.\<close>

definition ClosedWriter :: "string queryWriter" where
  "ClosedWriter =
     \<lparr>WriteString = (\<lambda>b s. (b, Some WriteFailed)), WriteRune = (\<lambda>b r. (b, Some WriteFailed))\<rparr>"

text \<open>A call either returns or panics (an index out of range, a nil dereference).\<close>

datatype 'a result = Panic | Return 'a

text \<open>The constant \<open>sqlStrNull\<close>; the spec and the tests give its text.\<close>

definition sqlStrNull :: string where
  "sqlStrNull = ''NULL''"

text \<open>
  Modelled from the spec: the helper \<open>isNotIn\<close>, which is not among the sources. The
  length contract is 1 for IN and NOT IN; the test \<open>TestArgNullString\<close> sees the length
  of three values drop from 3 to 1 once the operator is \<open>NotIn\<close>.
\<close>

definition isNotIn :: "opcode \<Rightarrow> bool" where
  "isNotIn o' = (o' \<noteq> In \<and> o' \<noteq> NotIn)"

section \<open>Nullable floats: storage/dbr/types\_null\_float64.go\<close>

record sql_NullFloat64 =
  Float64 :: float64
  Valid :: bool

record NullFloat64 = sql_NullFloat64 +
  opt :: opcode

definition NullFloat64_toIFace :: "NullFloat64 \<Rightarrow> iface list \<Rightarrow> iface list" where
  "NullFloat64_toIFace a args =
     (if Valid a then args @ [IFloat64 (Float64 a)] else args @ [INil])"

definition NullFloat64_writeTo ::
  "'w queryWriter \<Rightarrow> (float64 \<Rightarrow> string) \<Rightarrow> NullFloat64 \<Rightarrow> 'w \<Rightarrow> int \<Rightarrow> ('w \<times> error option) result"
where
  "NullFloat64_writeTo W FormatFloat a w pos =
     (if Valid a then Return (WriteString W w (FormatFloat (Float64 a)))
      else Return (WriteString W w sqlStrNull))"

definition NullFloat64_len :: "NullFloat64 \<Rightarrow> int" where
  "NullFloat64_len a = 1"

definition NullFloat64_Operator :: "NullFloat64 \<Rightarrow> opcode \<Rightarrow> NullFloat64" where
  "NullFloat64_Operator a opt' = a\<lparr>NullFloat64.opt := opt'\<rparr>"

definition NullFloat64_operator :: "NullFloat64 \<Rightarrow> opcode" where
  "NullFloat64_operator a = NullFloat64.opt a"

text \<open>\<open>MakeNullFloat64(f, valid...)\<close>: the variadic flag counts only when exactly one is given.\<close>

definition MakeNullFloat64 :: "float64 \<Rightarrow> bool list \<Rightarrow> NullFloat64" where
  "MakeNullFloat64 f valid =
     (let v = (if length valid = 1 then valid ! 0 else True)
      in \<lparr>Float64 = f, Valid = v, NullFloat64.opt = NoOperator\<rparr>)"

record argNullFloat64s =
  opt :: opcode
  data :: "NullFloat64 list"

definition argNullFloat64s_operator :: "argNullFloat64s \<Rightarrow> opcode" where
  "argNullFloat64s_operator a = argNullFloat64s.opt a"

definition argNullFloat64s_Operator :: "argNullFloat64s \<Rightarrow> opcode \<Rightarrow> argNullFloat64s" where
  "argNullFloat64s_Operator a opt' = a\<lparr>argNullFloat64s.opt := opt'\<rparr>"

text \<open>The \<open>range\<close> loop of \<open>argNullFloat64s.toIFace\<close>, one append per element.\<close>

fun toIFace_range :: "NullFloat64 list \<Rightarrow> iface list \<Rightarrow> iface list" where
  "toIFace_range [] args = args"
| "toIFace_range (s # rest) args =
     toIFace_range rest (if Valid s then args @ [IFloat64 (Float64 s)] else args @ [INil])"

definition argNullFloat64s_toIFace :: "argNullFloat64s \<Rightarrow> iface list \<Rightarrow> iface list" where
  "argNullFloat64s_toIFace a args = toIFace_range (data a) args"

text \<open>
  The \<open>range\<close> loop of the IN branch of \<open>argNullFloat64s.writeTo\<close>: \<open>i\<close> is the index of
  the head of the remaining elements, \<open>l\<close> is \<open>len(a.data) - 1\<close>. The results of the writes
  are discarded, as in the source.
\<close>

fun writeTo_range ::
  "'w queryWriter \<Rightarrow> (float64 \<Rightarrow> string) \<Rightarrow> int \<Rightarrow> int \<Rightarrow> NullFloat64 list \<Rightarrow> 'w \<Rightarrow> 'w"
where
  "writeTo_range W FormatFloat l i [] w = w"
| "writeTo_range W FormatFloat l i (v # rest) w =
     (let w1 = (if Valid v then fst (WriteString W w (FormatFloat (Float64 v)))
                else fst (WriteString W w sqlStrNull));
          w2 = (if i < l then fst (WriteRune W w1 (CHR '','')) else w1)
      in writeTo_range W FormatFloat l (i + 1) rest w2)"

definition argNullFloat64s_writeTo ::
  "'w queryWriter \<Rightarrow> (float64 \<Rightarrow> string) \<Rightarrow> argNullFloat64s \<Rightarrow> 'w \<Rightarrow> int \<Rightarrow> ('w \<times> error option) result"
where
  "argNullFloat64s_writeTo W FormatFloat a w pos =
     (if argNullFloat64s_operator a \<noteq> In \<and> argNullFloat64s_operator a \<noteq> NotIn then
        (if pos < 0 \<or> int (length (data a)) \<le> pos then Panic
         else (let s = data a ! nat pos in
               if Valid s then Return (WriteString W w (FormatFloat (Float64 s)))
               else Return (WriteString W w sqlStrNull)))
      else
        (let l = int (length (data a)) - 1;
             w1 = fst (WriteRune W w (CHR ''(''));
             w2 = writeTo_range W FormatFloat l 0 (data a) w1
         in Return (WriteRune W w2 (CHR '')''))))"

definition argNullFloat64s_len :: "argNullFloat64s \<Rightarrow> int" where
  "argNullFloat64s_len a =
     (if isNotIn (argNullFloat64s_operator a) then int (length (data a)) else 1)"

section \<open>Strings and plain values as arguments (modelled from the spec)\<close>

text \<open>
  \<open>unicode/utf8.ValidString\<close> of the Go library: the well-formed byte sequences of
  UTF-8, without overlong forms, surrogates and code points above U+10FFFF.
\<close>

definition byte_in :: "nat \<Rightarrow> nat \<Rightarrow> char \<Rightarrow> bool" where
  "byte_in lo hi c = (lo \<le> of_char c \<and> of_char c \<le> hi)"

fun utf8_ValidString :: "string \<Rightarrow> bool" where
  "utf8_ValidString [] = True"
| "utf8_ValidString (c # cs) =
     (let b = (of_char c :: nat) in
      if b < 0x80 then utf8_ValidString cs
      else if 0xC2 \<le> b \<and> b \<le> 0xDF then
        (case cs of c1 # r \<Rightarrow> byte_in 0x80 0xBF c1 \<and> utf8_ValidString r | _ \<Rightarrow> False)
      else if 0xE0 \<le> b \<and> b \<le> 0xEF then
        (case cs of
           c1 # c2 # r \<Rightarrow>
             byte_in (if b = 0xE0 then 0xA0 else 0x80) (if b = 0xED then 0x9F else 0xBF) c1
             \<and> byte_in 0x80 0xBF c2 \<and> utf8_ValidString r
         | _ \<Rightarrow> False)
      else if 0xF0 \<le> b \<and> b \<le> 0xF4 then
        (case cs of
           c1 # c2 # c3 # r \<Rightarrow>
             byte_in (if b = 0xF0 then 0x90 else 0x80) (if b = 0xF4 then 0x8F else 0xBF) c1
             \<and> byte_in 0x80 0xBF c2 \<and> byte_in 0x80 0xBF c3 \<and> utf8_ValidString r
         | _ \<Rightarrow> False)
      else False)"

text \<open>
  Modelled from the spec: the literal of a string. Section 6: inlined string and byte
  values are "single-quote-escaped with backslash-escaping of embedded quotes"; the test
  \<open>TestNullString_Argument\<close> escapes both the single and the double quote.
\<close>

fun escape_quotes :: "string \<Rightarrow> string" where
  "escape_quotes [] = []"
| "escape_quotes (c # cs) =
     (if c = CHR 0x27 \<or> c = CHR 0x22 then CHR 0x5C # c # escape_quotes cs
      else c # escape_quotes cs)"

definition quote_string :: "string \<Rightarrow> string" where
  "quote_string s = CHR 0x27 # escape_quotes s @ [CHR 0x27]"

text \<open>
  Modelled from the spec: the literal of one bound value, the implementations of it
  not being among the sources. Section 4.1: a null renders the literal NULL; a string or
  byte value is escaped and quoted, and "invalid UTF-8 in a string value is a hard error"
  (\<open>TestArgNullString\<close> expects the NotValid error). The text of a number or a boolean
  is what package strconv prints, the parameter \<open>fmt\<close>.
\<close>

fun render_value :: "(iface \<Rightarrow> string) \<Rightarrow> iface \<Rightarrow> error + string" where
  "render_value fmt INil = Inr sqlStrNull"
| "render_value fmt (IString s) = (if utf8_ValidString s then Inr (quote_string s) else Inl NotValid)"
| "render_value fmt (IBytes s) = (if utf8_ValidString s then Inr (quote_string s) else Inl NotValid)"
| "render_value fmt v = Inr (fmt v)"

text \<open>
  Modelled from the spec: an argument of one value and an argument of a sequence of
  values, with the value kinds of section 3 (int64, float64, string, bool, null, bytes).
  Their methods follow the two implementations above, the only ones among the sources:
  a sequence is indexed at the given position unless the operator is IN or NOT IN, and
  is written as one parenthesised list under these two.
\<close>

record argValue =
  opt :: opcode
  val :: iface

record argValues =
  opt :: opcode
  vals :: "iface list"

definition argValue_writeTo ::
  "'w queryWriter \<Rightarrow> (iface \<Rightarrow> string) \<Rightarrow> argValue \<Rightarrow> 'w \<Rightarrow> int \<Rightarrow> ('w \<times> error option) result"
where
  "argValue_writeTo W fmt a w pos =
     (case render_value fmt (val a) of
        Inl e \<Rightarrow> Return (w, Some e)
      | Inr t \<Rightarrow> Return (WriteString W w t))"

text \<open>
  The loop of the IN branch: it returns at the first value that has no literal, with what
  was written so far.
\<close>

fun argValues_range ::
  "'w queryWriter \<Rightarrow> (iface \<Rightarrow> string) \<Rightarrow> int \<Rightarrow> int \<Rightarrow> iface list \<Rightarrow> 'w \<Rightarrow> 'w \<times> error option"
where
  "argValues_range W fmt l i [] w = (w, None)"
| "argValues_range W fmt l i (v # rest) w =
     (case render_value fmt v of
        Inl e \<Rightarrow> (w, Some e)
      | Inr t \<Rightarrow>
          (let w1 = fst (WriteString W w t);
               w2 = (if i < l then fst (WriteRune W w1 (CHR '','')) else w1)
           in argValues_range W fmt l (i + 1) rest w2))"

definition argValues_writeTo ::
  "'w queryWriter \<Rightarrow> (iface \<Rightarrow> string) \<Rightarrow> argValues \<Rightarrow> 'w \<Rightarrow> int \<Rightarrow> ('w \<times> error option) result"
where
  "argValues_writeTo W fmt a w pos =
     (if argValues.opt a \<noteq> In \<and> argValues.opt a \<noteq> NotIn then
        (if pos < 0 \<or> int (length (vals a)) \<le> pos then Panic
         else (case render_value fmt (vals a ! nat pos) of
                 Inl e \<Rightarrow> Return (w, Some e)
               | Inr t \<Rightarrow> Return (WriteString W w t)))
      else
        (let l = int (length (vals a)) - 1;
             w1 = fst (WriteRune W w (CHR ''(''))
         in case argValues_range W fmt l 0 (vals a) w1 of
              (w2, Some e) \<Rightarrow> Return (w2, Some e)
            | (w2, None) \<Rightarrow> Return (WriteRune W w2 (CHR '')''))))"

section \<open>The interface Argument\<close>

text \<open>
  The implementations of the interface \<open>Argument\<close>: the two of
  types\_null\_float64.go and the two modelled ones, with the dynamic dispatch of the
  methods. The one formatting parameter \<open>fmt\<close> stands for package strconv;
  \<open>strconv.FormatFloat\<close> is its restriction to floats.
\<close>

datatype Argument =
    Arg_NullFloat64 NullFloat64
  | Arg_argNullFloat64s argNullFloat64s
  | Arg_argValue argValue
  | Arg_argValues argValues

definition ArgNullFloat64 :: "NullFloat64 list \<Rightarrow> Argument" where
  "ArgNullFloat64 args =
     (if length args = 1 then Arg_NullFloat64 (args ! 0)
      else Arg_argNullFloat64s \<lparr>argNullFloat64s.opt = NoOperator, data = args\<rparr>)"

definition FormatFloat_of :: "(iface \<Rightarrow> string) \<Rightarrow> float64 \<Rightarrow> string" where
  "FormatFloat_of fmt f = fmt (IFloat64 f)"

fun Argument_toIFace :: "Argument \<Rightarrow> iface list \<Rightarrow> iface list" where
  "Argument_toIFace (Arg_NullFloat64 a) args = NullFloat64_toIFace a args"
| "Argument_toIFace (Arg_argNullFloat64s a) args = argNullFloat64s_toIFace a args"
| "Argument_toIFace (Arg_argValue a) args = args @ [val a]"
| "Argument_toIFace (Arg_argValues a) args = args @ vals a"

fun Argument_writeTo ::
  "'w queryWriter \<Rightarrow> (iface \<Rightarrow> string) \<Rightarrow> Argument \<Rightarrow> 'w \<Rightarrow> int \<Rightarrow> ('w \<times> error option) result"
where
  "Argument_writeTo W fmt (Arg_NullFloat64 a) w pos =
     NullFloat64_writeTo W (FormatFloat_of fmt) a w pos"
| "Argument_writeTo W fmt (Arg_argNullFloat64s a) w pos =
     argNullFloat64s_writeTo W (FormatFloat_of fmt) a w pos"
| "Argument_writeTo W fmt (Arg_argValue a) w pos = argValue_writeTo W fmt a w pos"
| "Argument_writeTo W fmt (Arg_argValues a) w pos = argValues_writeTo W fmt a w pos"

fun Argument_len :: "Argument \<Rightarrow> int" where
  "Argument_len (Arg_NullFloat64 a) = NullFloat64_len a"
| "Argument_len (Arg_argNullFloat64s a) = argNullFloat64s_len a"
| "Argument_len (Arg_argValue a) = 1"
| "Argument_len (Arg_argValues a) =
     (if isNotIn (argValues.opt a) then int (length (vals a)) else 1)"

fun Argument_Operator :: "Argument \<Rightarrow> opcode \<Rightarrow> Argument" where
  "Argument_Operator (Arg_NullFloat64 a) opt' = Arg_NullFloat64 (NullFloat64_Operator a opt')"
| "Argument_Operator (Arg_argNullFloat64s a) opt' =
     Arg_argNullFloat64s (argNullFloat64s_Operator a opt')"
| "Argument_Operator (Arg_argValue a) opt' = Arg_argValue (a\<lparr>argValue.opt := opt'\<rparr>)"
| "Argument_Operator (Arg_argValues a) opt' = Arg_argValues (a\<lparr>argValues.opt := opt'\<rparr>)"

fun Argument_operator :: "Argument \<Rightarrow> opcode" where
  "Argument_operator (Arg_NullFloat64 a) = NullFloat64_operator a"
| "Argument_operator (Arg_argNullFloat64s a) = argNullFloat64s_operator a"
| "Argument_operator (Arg_argValue a) = argValue.opt a"
| "Argument_operator (Arg_argValues a) = argValues.opt a"

text \<open>
  Modelled from the spec: the constructors of the plain arguments. Like
  \<open>ArgNullFloat64\<close> they return the single value itself when given exactly one, and
  the sequence otherwise; the operator is the zero value until \<open>Operator\<close> sets it.
  \<open>ArgNull\<close> and \<open>ArgNotNull\<close> carry no value, only the operator.
\<close>

definition ArgValues :: "iface list \<Rightarrow> Argument" where
  "ArgValues args =
     (if length args = 1 then Arg_argValue \<lparr>argValue.opt = NoOperator, val = args ! 0\<rparr>
      else Arg_argValues \<lparr>argValues.opt = NoOperator, vals = args\<rparr>)"

definition ArgInt64 :: "int64 list \<Rightarrow> Argument" where
  "ArgInt64 args = ArgValues (map IInt64 args)"

definition ArgFloat64 :: "float64 list \<Rightarrow> Argument" where
  "ArgFloat64 args = ArgValues (map IFloat64 args)"

definition ArgString :: "string list \<Rightarrow> Argument" where
  "ArgString args = ArgValues (map IString args)"

definition ArgBool :: "bool list \<Rightarrow> Argument" where
  "ArgBool args = ArgValues (map IBool args)"

definition ArgBytes :: "string list \<Rightarrow> Argument" where
  "ArgBytes args = ArgValues (map IBytes args)"

definition MakeNullString :: "string \<Rightarrow> bool list \<Rightarrow> iface" where
  "MakeNullString s valid =
     (let v = (if length valid = 1 then valid ! 0 else True) in if v then IString s else INil)"

definition ArgNullString :: "iface list \<Rightarrow> Argument" where
  "ArgNullString args = ArgValues args"

definition ArgNull :: Argument where
  "ArgNull = Arg_argValue \<lparr>argValue.opt = Null, val = INil\<rparr>"

definition ArgNotNull :: Argument where
  "ArgNotNull = Arg_argValue \<lparr>argValue.opt = NotNull, val = INil\<rparr>"

text \<open>\<open>Arguments.Interfaces\<close>: every argument appends its values to one flat list.\<close>

fun Interfaces_range :: "Argument list \<Rightarrow> iface list \<Rightarrow> iface list" where
  "Interfaces_range [] ret = ret"
| "Interfaces_range (a # rest) ret = Interfaces_range rest (Argument_toIFace a ret)"

definition Interfaces :: "Argument list \<Rightarrow> iface list" where
  "Interfaces args = Interfaces_range args []"

text \<open>
  What the spec calls the rendering of one nullable value, and of a parenthesised list:
  the literals joined by commas between one pair of parentheses.
\<close>

definition literal :: "(float64 \<Rightarrow> string) \<Rightarrow> NullFloat64 \<Rightarrow> string" where
  "literal FormatFloat v = (if Valid v then FormatFloat (Float64 v) else ''NULL'')"

fun join_comma :: "string list \<Rightarrow> string" where
  "join_comma [] = []"
| "join_comma [s] = s"
| "join_comma (s # t # rest) = s @ '','' @ join_comma (t # rest)"

definition paren_list :: "string list \<Rightarrow> string" where
  "paren_list lits = ''('' @ join_comma lits @ '')''"

definition bound_value :: "NullFloat64 \<Rightarrow> iface" where
  "bound_value v = (if Valid v then IFloat64 (Float64 v) else INil)"

text \<open>A stand-in for \<open>strconv.FormatFloat\<close> on the inputs of the examples.\<close>

definition sample_FormatFloat :: "float64 \<Rightarrow> string" where
  "sample_FormatFloat f = (if f = 1 then ''1.5'' else ''2.25'')"

text \<open>The same for every value kind: decimal text for the numbers of the examples.\<close>

fun sample_fmt :: "iface \<Rightarrow> string" where
  "sample_fmt (IFloat64 f) = sample_FormatFloat f"
| "sample_fmt (IInt64 n) = (if n = 1 then ''1'' else if n = 2 then ''2'' else ''3'')"
| "sample_fmt (IBool b) = (if b then ''1'' else ''0'')"
| "sample_fmt v = []"

section \<open>Table.Select: storage/csdb/table.go\<close>

text \<open>
  Go slices are headers over a backing array, so the copy of a struct that holds a
  slice shares the array. The memory is explicit here: backing arrays of strings and
  \<open>dbr.Select\<close> values, both by address. Of \<open>dbr.Select\<close> (declared in a file that is
  not among the sources) the two fields that \<open>Table.update\<close> fills are kept.
\<close>

type_synonym addr = nat

record slice =
  ptr :: addr
  len :: nat
  cap :: nat

record Select_mem =
  Columns :: slice
  Table :: "string \<times> string"

record Table =
  Name :: string
  selectAllCache :: "addr option"

record heap =
  arrays :: "addr \<rightharpoonup> string list"
  selects :: "addr \<rightharpoonup> Select_mem"
  fresh :: addr

text \<open>
  \<open>Table.Select\<close>: \<open>new(dbr.Select)\<close> and the assignment \<open>*sb = *t.selectAllCache\<close>,
  a copy of the struct value. The cache is nil for a table without columns
  (\<open>update\<close> returns early), and dereferencing nil panics.
\<close>

definition Table_Select :: "Table \<Rightarrow> heap \<Rightarrow> (addr \<times> heap) result" where
  "Table_Select t h =
     (let sb = fresh h;
          h1 = h\<lparr>fresh := sb + 1\<rparr>
      in case selectAllCache t of
           None \<Rightarrow> Panic
         | Some c \<Rightarrow>
             (case selects h1 c of
                None \<Rightarrow> Panic
              | Some v \<Rightarrow> Return (sb, h1\<lparr>selects := (selects h1)(sb \<mapsto> v)\<rparr>)))"

text \<open>
  Go's own operations on a statement's column slice: the elements a slice shows, and
  the assignment \<open>s.Columns[i] = x\<close>, which panics out of range.
\<close>

definition slice_elems :: "heap \<Rightarrow> slice \<Rightarrow> string list" where
  "slice_elems h s = (case arrays h (ptr s) of None \<Rightarrow> [] | Some xs \<Rightarrow> take (len s) xs)"

definition Select_Columns :: "heap \<Rightarrow> addr \<Rightarrow> string list" where
  "Select_Columns h p = (case selects h p of None \<Rightarrow> [] | Some v \<Rightarrow> slice_elems h (Columns v))"

definition set_Column :: "addr \<Rightarrow> nat \<Rightarrow> string \<Rightarrow> heap \<Rightarrow> heap result" where
  "set_Column p i x h =
     (case selects h p of
        None \<Rightarrow> Panic
      | Some v \<Rightarrow>
          (if len (Columns v) \<le> i then Panic
           else case arrays h (ptr (Columns v)) of
                  None \<Rightarrow> Panic
                | Some xs \<Rightarrow> Return (h\<lparr>arrays := (arrays h)(ptr (Columns v) \<mapsto> xs[i := x])\<rparr>)))"

text \<open>
  The memory after \<open>NewTable\<close> of a table \<open>t\<close> with the columns \<open>id\<close> and \<open>name\<close>: the
  cached statement at address 1, its two quoted columns in the array at address 0.
\<close>

definition table_t :: Table where
  "table_t = \<lparr>Name = ''t'', selectAllCache = Some 1\<rparr>"

definition heap_t :: heap where
  "heap_t =
     \<lparr>arrays = [0 \<mapsto> [''`main_table`.`id`'', ''`main_table`.`name`'']],
      selects = [1 \<mapsto> \<lparr>Columns = \<lparr>ptr = 0, len = 2, cap = 2\<rparr>, Table = (''t'', ''main_table'')\<rparr>],
      fresh = 2\<rparr>"

text \<open>
  Two statements taken from the table one after the other, then a column of the first
  overwritten: the columns the second statement shows afterwards.
\<close>

definition sibling_after_write :: "string list result" where
  "sibling_after_write =
     (case Table_Select table_t heap_t of
        Panic \<Rightarrow> Panic
      | Return (s1, h1) \<Rightarrow>
          (case Table_Select table_t h1 of
             Panic \<Rightarrow> Panic
           | Return (s2, h2) \<Rightarrow>
               (case set_Column s1 0 ''COUNT(*)'' h2 of
                  Panic \<Rightarrow> Panic
                | Return h3 \<Rightarrow> Return (Select_Columns h3 s2))))"

section \<open>Properties of the nullable float arguments\<close>

lemma toIFace_range_map: "toIFace_range xs args = args @ map bound_value xs"
  by (induction xs arbitrary: args) (simp_all add: bound_value_def)

lemma writeTo_range_Buffer:
  "l = i + int (length xs) - 1 \<Longrightarrow>
   writeTo_range Buffer F l i xs w = w @ join_comma (map (literal F) xs)"
proof (induction xs arbitrary: i w)
  case Nil
  then show ?case by simp
next
  case (Cons v rest)
  show ?case
  proof (cases rest)
    case Nil
    with Cons.prems show ?thesis
      by (simp add: Buffer_def literal_def sqlStrNull_def)
  next
    case (Cons r rest')
    have l: "l = (i + 1) + int (length rest) - 1" using Cons.prems by simp
    have lt: "i < l" using Cons.prems Cons by simp
    show ?thesis
      using Cons.IH [OF l] lt Cons
      by (simp add: Buffer_def literal_def sqlStrNull_def Let_def)
  qed
qed

lemma writeTo_In_Buffer:
  assumes "argNullFloat64s_operator a = In \<or> argNullFloat64s_operator a = NotIn"
  shows "argNullFloat64s_writeTo Buffer FormatFloat a w pos =
           Return (w @ paren_list (map (literal FormatFloat) (data a)), None)"
proof -
  have "writeTo_range Buffer FormatFloat (int (length (data a)) - 1) 0 (data a) (w @ ''('')
          = (w @ ''('') @ join_comma (map (literal FormatFloat) (data a))"
    by (rule writeTo_range_Buffer) simp
  then show ?thesis
    using assms
    by (auto simp add: argNullFloat64s_writeTo_def paren_list_def Buffer_def Let_def)
qed

text \<open>
  C1, as the spec states it: in an IN list with an invalid entry, the NULL entry is
  absent from the bound values. The code binds nil for it: three values, the second
  invalid, give three bound values with nil in the middle.
\<close>

theorem in_list_null_is_bound_as_nil:
  "argNullFloat64s_toIFace
     (argNullFloat64s_Operator
        \<lparr>argNullFloat64s.opt = NoOperator,
         data = [MakeNullFloat64 1 [], MakeNullFloat64 2 [False], MakeNullFloat64 3 []]\<rparr> In) []
   = [IFloat64 1, INil, IFloat64 3]"
  by (simp add: argNullFloat64s_toIFace_def argNullFloat64s_Operator_def MakeNullFloat64_def)

text \<open>
  C1, amended: under IN and NOT IN the values are written as one parenthesised,
  comma-separated list in which every invalid entry is the token NULL, and the bound
  values get one entry per value in order, nil for every invalid entry.
\<close>

theorem in_list_renders_null_and_binds_nil:
  assumes "argNullFloat64s_operator a = In \<or> argNullFloat64s_operator a = NotIn"
  shows "argNullFloat64s_writeTo Buffer FormatFloat a w pos =
           Return (w @ paren_list (map (literal FormatFloat) (data a)), None)
       \<and> argNullFloat64s_toIFace a args = args @ map bound_value (data a)
       \<and> (\<forall>v \<in> set (data a). \<not> Valid v \<longrightarrow>
             literal FormatFloat v = ''NULL'' \<and> bound_value v = INil)"
  using writeTo_In_Buffer [OF assms]
  by (simp add: argNullFloat64s_toIFace_def toIFace_range_map literal_def bound_value_def)

theorem in_list_renders_null_and_binds_nil_witness:
  "argNullFloat64s_writeTo Buffer sample_FormatFloat
     \<lparr>argNullFloat64s.opt = In,
      data = [MakeNullFloat64 1 [], MakeNullFloat64 2 [False], MakeNullFloat64 3 []]\<rparr> [] 0
     = Return (''(1.5,NULL,2.25)'', None)
   \<and> argNullFloat64s_toIFace
       \<lparr>argNullFloat64s.opt = In,
        data = [MakeNullFloat64 1 [], MakeNullFloat64 2 [False], MakeNullFloat64 3 []]\<rparr> []
     = [IFloat64 1, INil, IFloat64 3]"
  using in_list_renders_null_and_binds_nil
    [of "\<lparr>argNullFloat64s.opt = In,
          data = [MakeNullFloat64 1 [], MakeNullFloat64 2 [False], MakeNullFloat64 3 []]\<rparr>"
        sample_FormatFloat "[]" 0 "[]"]
  by (simp add: argNullFloat64s_operator_def MakeNullFloat64_def paren_list_def literal_def
      bound_value_def sample_FormatFloat_def)

text \<open>
  C9: \<open>ArgNullFloat64\<close> with exactly one value returns that \<open>NullFloat64\<close> itself. Its
  length is 1 under every operator, and under IN it is written as the bare value, with
  no parentheses; two or more values come back as the sequence wrapper, which IN
  writes as a parenthesised list.
\<close>

theorem ArgNullFloat64_single_is_scalar:
  "ArgNullFloat64 [v] = Arg_NullFloat64 v
   \<and> Argument_len (Argument_Operator (ArgNullFloat64 [v]) opt') = 1
   \<and> Argument_writeTo W fmt (Argument_Operator (ArgNullFloat64 [v]) In) w pos =
       Return (WriteString W w (literal (FormatFloat_of fmt) v))
   \<and> Argument_writeTo Buffer fmt (Argument_Operator (ArgNullFloat64 [v]) In) w pos =
       Return (w @ literal (FormatFloat_of fmt) v, None)
   \<and> (2 \<le> length vs \<longrightarrow>
        ArgNullFloat64 vs = Arg_argNullFloat64s \<lparr>argNullFloat64s.opt = NoOperator, data = vs\<rparr>
        \<and> Argument_writeTo Buffer fmt (Argument_Operator (ArgNullFloat64 vs) In) w pos =
            Return (w @ paren_list (map (literal (FormatFloat_of fmt)) vs), None))"
proof -
  have seq: "argNullFloat64s_writeTo Buffer (FormatFloat_of fmt)
               \<lparr>argNullFloat64s.opt = In, data = vs\<rparr> w pos =
             Return (w @ paren_list (map (literal (FormatFloat_of fmt)) vs), None)"
    using writeTo_In_Buffer
      [of "\<lparr>argNullFloat64s.opt = In, data = vs\<rparr>" "FormatFloat_of fmt" w pos]
    by (simp add: argNullFloat64s_operator_def)
  show ?thesis
    using seq
    by (simp add: ArgNullFloat64_def NullFloat64_len_def NullFloat64_Operator_def
        NullFloat64_writeTo_def literal_def sqlStrNull_def Buffer_def
        argNullFloat64s_Operator_def)
qed

theorem ArgNullFloat64_single_is_scalar_witness:
  "Argument_writeTo Buffer sample_fmt
     (Argument_Operator (ArgNullFloat64 [MakeNullFloat64 1 []]) In) [] 0
     = Return (''1.5'', None)
   \<and> 2 \<le> length [MakeNullFloat64 1 [], MakeNullFloat64 2 []]
   \<and> Argument_writeTo Buffer sample_fmt
       (Argument_Operator (ArgNullFloat64 [MakeNullFloat64 1 [], MakeNullFloat64 2 []]) In) [] 0
     = Return (''(1.5,2.25)'', None)"
  using ArgNullFloat64_single_is_scalar
    [of "MakeNullFloat64 1 []" NoOperator Buffer sample_fmt "[]" 0
        "[MakeNullFloat64 1 [], MakeNullFloat64 2 []]"]
  by (simp add: MakeNullFloat64_def paren_list_def literal_def sample_FormatFloat_def
      FormatFloat_of_def
      ArgNullFloat64_def NullFloat64_writeTo_def NullFloat64_Operator_def Buffer_def
      argNullFloat64s_writeTo_def argNullFloat64s_Operator_def argNullFloat64s_operator_def)

text \<open>
  C10: under an operator other than IN and NOT IN, \<open>writeTo\<close> indexes the values at the
  given position unchecked. A position at or beyond the number of values panics; and
  whenever the call returns an error, the position was in range and the error is the
  one the write of that value returned.
\<close>

theorem argNullFloat64s_writeTo_unchecked_index:
  assumes "argNullFloat64s_operator a \<noteq> In" and "argNullFloat64s_operator a \<noteq> NotIn"
  shows "(int (length (data a)) \<le> pos \<longrightarrow> argNullFloat64s_writeTo W FormatFloat a w pos = Panic)
       \<and> (\<forall>w' e. argNullFloat64s_writeTo W FormatFloat a w pos = Return (w', Some e) \<longrightarrow>
             0 \<le> pos \<and> pos < int (length (data a))
             \<and> WriteString W w (literal FormatFloat (data a ! nat pos)) = (w', Some e))"
  using assms
  by (auto simp add: argNullFloat64s_writeTo_def Let_def literal_def sqlStrNull_def
      split: if_splits)

theorem argNullFloat64s_writeTo_unchecked_index_witness:
  "argNullFloat64s_operator \<lparr>argNullFloat64s.opt = NoOperator, data = []\<rparr> \<noteq> In
   \<and> argNullFloat64s_operator \<lparr>argNullFloat64s.opt = NoOperator, data = []\<rparr> \<noteq> NotIn
   \<and> int (length (data \<lparr>argNullFloat64s.opt = NoOperator, data = []\<rparr>)) \<le> 0
   \<and> argNullFloat64s_writeTo Buffer sample_FormatFloat
        \<lparr>argNullFloat64s.opt = NoOperator, data = []\<rparr> [] 0 = Panic
   \<and> argNullFloat64s_writeTo ClosedWriter sample_FormatFloat
        \<lparr>argNullFloat64s.opt = NotEqual, data = [MakeNullFloat64 1 [], MakeNullFloat64 2 []]\<rparr>
        [] 1 = Return ([], Some WriteFailed)
   \<and> WriteString ClosedWriter []
        (literal sample_FormatFloat ([MakeNullFloat64 1 [], MakeNullFloat64 2 []] ! nat 1))
       = ([], Some WriteFailed)"
proof -
  have zero: "argNullFloat64s_writeTo Buffer sample_FormatFloat
                \<lparr>argNullFloat64s.opt = NoOperator, data = []\<rparr> [] 0 = Panic"
    using argNullFloat64s_writeTo_unchecked_index
      [of "\<lparr>argNullFloat64s.opt = NoOperator, data = []\<rparr>" 0 Buffer sample_FormatFloat "[]"]
    by (simp add: argNullFloat64s_operator_def)
  have ret: "argNullFloat64s_writeTo ClosedWriter sample_FormatFloat
               \<lparr>argNullFloat64s.opt = NotEqual,
                data = [MakeNullFloat64 1 [], MakeNullFloat64 2 []]\<rparr> [] 1
             = Return ([], Some WriteFailed)"
    by (simp add: argNullFloat64s_writeTo_def argNullFloat64s_operator_def MakeNullFloat64_def
        ClosedWriter_def)
  have "WriteString ClosedWriter []
          (literal sample_FormatFloat ([MakeNullFloat64 1 [], MakeNullFloat64 2 []] ! nat 1))
        = ([], Some WriteFailed)"
    using argNullFloat64s_writeTo_unchecked_index
      [of "\<lparr>argNullFloat64s.opt = NotEqual,
             data = [MakeNullFloat64 1 [], MakeNullFloat64 2 []]\<rparr>"
          1 ClosedWriter sample_FormatFloat "[]"] ret
    by (simp add: argNullFloat64s_operator_def)
  then show ?thesis
    using zero ret by (simp add: argNullFloat64s_operator_def)
qed

section \<open>Properties of Table.Select\<close>

text \<open>
  C2: a statement copied from the table's cached statement shares the backing array
  of its columns with the cache and with every other copy. Overwriting the first column
  of one copy changes the columns of the copy taken after it.
\<close>

theorem Table_Select_shares_columns:
  "sibling_after_write = Return [''COUNT(*)'', ''`main_table`.`name`'']"
  by (simp add: sibling_after_write_def Table_Select_def table_t_def heap_t_def set_Column_def
      Select_Columns_def slice_elems_def Let_def)

end
